theory Spec2Isabelle
  imports Main "HOL-Library.AList"
begin

section \<open>The GPAI assessment script (streamlit_app.py) as state-passing functions\<close>

text \<open>
  The program is one Streamlit script, executed top to bottom. Every widget call
  (\<^verbatim>\<open>st.radio\<close>, \<^verbatim>\<open>st.text_area\<close>, \<^verbatim>\<open>st.text_input\<close>, \<^verbatim>\<open>st.button\<close>)
  returns the value the user currently holds in that widget; \<^verbatim>\<open>st.stop()\<close> ends the
  script; an uncaught Python exception ends it as well.

  The model has three parts:
  \<^item> a \<open>session\<close> record: the value of every widget (what the user selected or typed);
  \<^item> a \<open>globals\<close> record: the module-level variables the script assigns, each
    \<open>None\<close> until its assignment has run, and \<open>asked\<close>, the widgets rendered so far;
  \<^item> one function per numbered step of the script, from the globals at the entry of the
    step to a \<open>status\<close> and the globals at its exit. \<open>script\<close> chains them.
\<close>

subsection \<open>Exceptions, outcomes and values\<close>

datatype exn = ValueError | KeyError | IndexError | NameError

text \<open>The three \<^verbatim>\<open>st.stop()\<close> calls, at lines 79, 120 and 179.\<close>

datatype verdict = Out_Of_Scope | Not_Provider | Below_Threshold

datatype status = Continue | Stopped verdict | Raised exn

text \<open>The values stored in \<^verbatim>\<open>report_data\<close>: strings and Python integers.\<close>

datatype pyval = PStr string | PInt int

type_synonym question_table = "(string \<times> string \<times> string list) list"

type_synonym responses = "(string \<times> string) list"

subsection \<open>Widgets and module-level variables\<close>

text \<open>
  \<open>radio_by_key\<close> holds the radios created in the four loops, under the key the script
  gives them (\<^verbatim>\<open>key=f"mod_{key}"\<close>, \<^verbatim>\<open>f"prelim_{key}"\<close>, \<^verbatim>\<open>f"obligation_{key}"\<close>,
  \<^verbatim>\<open>f"sys_{key}"\<close>). The other widgets are fields: \<open>borderline_sysrisk\<close> is the radio
  of line 280 and \<open>remediation_text\<close> the text area of line 321.
\<close>

record session =
  provider_type :: string
  provider_context_justification :: string
  specialized_radio :: string
  developed_internally :: string
  radio_by_key :: "string \<Rightarrow> string"
  borderline_sysrisk :: string
  remediation_text :: string
  model_name :: string
  provider_name :: string
  generate_button :: bool

record globals =
  asked :: "string list"
  substantial_mod :: "bool option"
  prelim_score :: "int option"
  responses_step3 :: "responses option"
  baseline_score :: "int option"
  obligation_responses :: "responses option"
  systemic_score :: "int option"
  systemic_responses :: "responses option"
  systemic_classification :: "string option"
  final_risk_decision :: "string option"
  overall_score :: "int option"
  compliance_status :: "string option"
  user_remediation :: "string option"
  report_data :: "(string \<times> pyval) list option"
  download :: "(string \<times> (string \<times> pyval) list list) option"

definition init_globals :: globals where
  "init_globals =
     \<lparr>asked = [], substantial_mod = None, prelim_score = None, responses_step3 = None,
      baseline_score = None, obligation_responses = None, systemic_score = None,
      systemic_responses = None, systemic_classification = None,
      final_risk_decision = None, overall_score = None, compliance_status = None,
      user_remediation = None, report_data = None, download = None\<rparr>"

text \<open>Sequencing: the next step runs only when the previous one fell through.\<close>

definition and_then ::
  "(globals \<Rightarrow> status \<times> globals) \<Rightarrow> (globals \<Rightarrow> status \<times> globals) \<Rightarrow> globals \<Rightarrow> status \<times> globals"
where
  "and_then f h g = (case f g of (Continue, g') \<Rightarrow> h g' | (r, g') \<Rightarrow> (r, g'))"

subsection \<open>The Python built-ins the script uses\<close>

text \<open>
  A \<^verbatim>\<open>dict\<close> keeps insertion order, so it is an association list: \<^verbatim>\<open>d[k] = v\<close> is
  \<^const>\<open>AList.update\<close> (replace in place, or append), \<^verbatim>\<open>d[k]\<close> raises KeyError on a
  missing key.
\<close>

definition dict_get :: "(string \<times> 'v) list \<Rightarrow> string \<Rightarrow> exn + 'v" where
  "dict_get d k = (case map_of d k of None \<Rightarrow> Inl KeyError | Some v \<Rightarrow> Inr v)"

text \<open>\<^verbatim>\<open>s.split(c)\<close> for a one-character separator: the pieces between the separators.\<close>

fun str_split :: "char \<Rightarrow> string \<Rightarrow> string list" where
  "str_split c [] = [[]]"
| "str_split c (x # xs) =
     (if x = c then [] # str_split c xs
      else (case str_split c xs of
              [] \<Rightarrow> [[x]]
            | p # ps \<Rightarrow> (x # p) # ps))"

text \<open>\<^verbatim>\<open>xs[i]\<close>: a negative index counts from the end, an index out of range raises.\<close>

definition subscript :: "'a list \<Rightarrow> int \<Rightarrow> exn + 'a" where
  "subscript xs i =
     (if 0 \<le> i \<and> i < int (length xs) then Inr (xs ! nat i)
      else if i < 0 \<and> - int (length xs) \<le> i then Inr (xs ! nat (int (length xs) + i))
      else Inl IndexError)"

text \<open>
  \<^verbatim>\<open>int(s)\<close> on ASCII text: surrounding whitespace is dropped, one sign is allowed, then
  decimal digits, where single underscores may stand between digits. Anything else is a
  ValueError.
\<close>

definition is_space :: "char \<Rightarrow> bool" where
  "is_space c \<longleftrightarrow>
     c \<in> set [CHR 0x09, CHR 0x0A, CHR 0x0B, CHR 0x0C, CHR 0x0D,
              CHR 0x1C, CHR 0x1D, CHR 0x1E, CHR 0x1F, CHR '' '']"

definition digit_of :: "char \<Rightarrow> int option" where
  "digit_of c =
     map_of [(CHR ''0'', 0), (CHR ''1'', 1), (CHR ''2'', 2), (CHR ''3'', 3), (CHR ''4'', 4),
             (CHR ''5'', 5), (CHR ''6'', 6), (CHR ''7'', 7), (CHR ''8'', 8), (CHR ''9'', 9)] c"

definition str_strip :: "string \<Rightarrow> string" where
  "str_strip s = rev (dropWhile is_space (rev (dropWhile is_space s)))"

fun more_digits :: "int \<Rightarrow> string \<Rightarrow> int option" where
  "more_digits acc [] = Some acc"
| "more_digits acc (c # cs) =
     (case digit_of c of
        Some d \<Rightarrow> more_digits (10 * acc + d) cs
      | None \<Rightarrow>
          (if c = CHR ''_'' then
             (case cs of
                [] \<Rightarrow> None
              | c' # cs' \<Rightarrow>
                  (case digit_of c' of
                     Some d \<Rightarrow> more_digits (10 * acc + d) cs'
                   | None \<Rightarrow> None))
           else None))"

definition decimal :: "string \<Rightarrow> int option" where
  "decimal s =
     (case s of
        [] \<Rightarrow> None
      | c # cs \<Rightarrow> (case digit_of c of Some d \<Rightarrow> more_digits d cs | None \<Rightarrow> None))"

definition signed_decimal :: "string \<Rightarrow> int option" where
  "signed_decimal s =
     (case s of
        [] \<Rightarrow> None
      | c # cs \<Rightarrow>
          (if c = CHR ''-'' then map_option uminus (decimal cs)
           else if c = CHR ''+'' then decimal cs
           else decimal s))"

definition py_int :: "string \<Rightarrow> exn + int" where
  "py_int s = (case signed_decimal (str_strip s) of None \<Rightarrow> Inl ValueError | Some n \<Rightarrow> Inr n)"

subsection \<open>Provider context and step 1: the specialization gate (lines 35--79)\<close>

definition step0 :: "session \<Rightarrow> globals \<Rightarrow> status \<times> globals" where
  "step0 w g =
     (Continue, g\<lparr>asked := asked g @ [''provider_type'', ''provider_context_justification'']\<rparr>)"

definition step1 :: "session \<Rightarrow> globals \<Rightarrow> status \<times> globals" where
  "step1 w g =
     (let g1 = g\<lparr>asked := asked g @ [''specialized_radio'']\<rparr>
      in if specialized_radio w = ''Yes (Specialized/Narrow)''
         then (Stopped Out_Of_Scope, g1)
         else (Continue, g1))"

subsection \<open>Step 2: provider determination (lines 87--125)\<close>

definition substantial_mod_questions :: "(string \<times> string \<times> string \<times> string) list" where
  "substantial_mod_questions =
     [(''param_change'',
         (''Have you changed >10% of parameters or model architecture?'', ''Yes'', ''No'')),
      (''purpose_change'',
         (''Is the intended purpose or functionality significantly changed?'', ''Yes'', ''No'')),
      (''data_change'',
         (''Have you retrained on distinctly different data (extensive fine-tuning)?'',
          ''Yes'', ''No'')),
      (''integration_change'',
         (''Does modification significantly alter downstream integration?'', ''Yes'', ''No''))]"

text \<open>The loop of lines 110--113; the accumulator is \<^verbatim>\<open>substantial_mod\<close> and the widgets rendered.\<close>

fun mod_loop ::
  "session \<Rightarrow> (string \<times> string \<times> string \<times> string) list \<Rightarrow> bool \<times> string list \<Rightarrow> bool \<times> string list"
where
  "mod_loop w [] acc = acc"
| "mod_loop w ((key, question, yes_label, no_label) # rest) (sm, a) =
     (let answer = radio_by_key w (''mod_'' @ key)
      in mod_loop w rest (if answer = ''Yes'' then True else sm, a @ [''mod_'' @ key]))"

definition step2 :: "session \<Rightarrow> globals \<Rightarrow> status \<times> globals" where
  "step2 w g =
     (let g1 = g\<lparr>asked := asked g @ [''developed_internally'']\<rparr>
      in if developed_internally w = ''Third Party'' then
           (case mod_loop w substantial_mod_questions (False, asked g1) of
              (sm, a) \<Rightarrow>
                (let g2 = g1\<lparr>substantial_mod := Some sm, asked := a\<rparr>
                 in if \<not> sm then (Stopped Not_Provider, g2) else (Continue, g2)))
         else (Continue, g1))"

subsection \<open>Step 3: preliminary scoring (lines 139--181)\<close>

text \<open>
  The second option of \<^verbatim>\<open>param_scale\<close> contains an en dash (U+2013); it is written here
  as its three UTF-8 bytes.
\<close>

definition en_dash :: string where
  "en_dash = [CHR 0xE2, CHR 0x80, CHR 0x93]"

definition preliminary_questions :: question_table where
  "preliminary_questions =
     [(''param_scale'',
         (''Approximate parameter count (Recital 98, threshold ~1B)?'',
          [''< 1B'', ''1B'' @ en_dash @ ''10B'', ''> 10B''])),
      (''training_scope'',
         (''Was the model trained on large, diverse datasets using self-supervised or unsupervised methods?'',
          [''No'', ''Partly'', ''Yes''])),
      (''broad_ability'',
         (''Does it perform competently on multiple distinct tasks or domains?'',
          [''No'', ''Partly'', ''Yes''])),
      (''generative_cap'',
         (''Does it generate adaptable content (text, images, code) across tasks?'',
          [''No'', ''Partly'', ''Yes'']))]"

definition param_scale_score_map :: "(string \<times> int) list" where
  "param_scale_score_map = [(''< 1B'', 0), (''1B'' @ en_dash @ ''10B'', 1), (''> 10B'', 2)]"

definition yes_partly_no_map :: "(string \<times> int) list" where
  "yes_partly_no_map = [(''No'', 0), (''Partly'', 1), (''Yes'', 2)]"

text \<open>
  The loop of lines 163--171. The accumulator is \<^verbatim>\<open>prelim_score\<close>, \<^verbatim>\<open>responses_step3\<close>
  and the widgets rendered; a failed lookup leaves the loop with the exception.
\<close>

fun prelim_loop ::
  "session \<Rightarrow> question_table \<Rightarrow> int \<times> responses \<times> string list \<Rightarrow> exn option \<times> int \<times> responses \<times> string list"
where
  "prelim_loop w [] acc = (None, acc)"
| "prelim_loop w ((key, question, options) # rest) (score, resp, a) =
     (let user_choice = radio_by_key w (''prelim_'' @ key);
          resp' = AList.update key user_choice resp;
          a' = a @ [''prelim_'' @ key]
      in case (if key = ''param_scale'' then dict_get param_scale_score_map user_choice
               else dict_get yes_partly_no_map user_choice) of
           Inl e \<Rightarrow> (Some e, score, resp', a')
         | Inr points \<Rightarrow> prelim_loop w rest (score + points, resp', a'))"

definition step3 :: "session \<Rightarrow> globals \<Rightarrow> status \<times> globals" where
  "step3 w g =
     (case prelim_loop w preliminary_questions (0, [], asked g) of
        (r, score, resp, a) \<Rightarrow>
          (let g1 = g\<lparr>prelim_score := Some score, responses_step3 := Some resp, asked := a\<rparr>
           in case r of
                Some e \<Rightarrow> (Raised e, g1)
              | None \<Rightarrow> if score < 3 then (Stopped Below_Threshold, g1) else (Continue, g1)))"

subsection \<open>Step 4: baseline obligations (lines 199--226)\<close>

definition baseline_obligations :: question_table where
  "baseline_obligations =
     [(''tech_doc'',
         (''Technical documentation (Article 53(1)(a)): Do you have detailed documentation of training and evaluation?'',
          [''Not in place (0)'', ''Partially in place (1)'', ''Fully in place (2)''])),
      (''instructions'',
         (''Downstream usage instructions and disclosures (Article 53(1)(b)): Provided to end-users?'',
          [''0 - None'', ''1 - Some partial instructions'', ''2 - Comprehensive guidelines''])),
      (''copyright'',
         (''Copyright compliance policy (Article 53(1)(c)): Ensuring lawful use of data, references, etc.?'',
          [''0 - None'', ''1 - Partial policy'', ''2 - Fully documented policy''])),
      (''data_summary'',
         (''Public summary of training data (Article 53(1)(d)): Published or available?'',
          [''0 - Not published'', ''1 - Partially available'', ''2 - Comprehensive summary'']))]"

text \<open>Line 225: \<^verbatim>\<open>int(user_choice.split("(")[-1].split(")")[0])\<close>.\<close>

definition numeric_val :: "string \<Rightarrow> exn + int" where
  "numeric_val user_choice =
     (case subscript (str_split CHR ''('' user_choice) (- 1) of
        Inl e \<Rightarrow> Inl e
      | Inr tail \<Rightarrow>
          (case subscript (str_split CHR '')'' tail) 0 of
             Inl e \<Rightarrow> Inl e
           | Inr inner \<Rightarrow> py_int inner))"

text \<open>
  The loop of lines 220--226. The response is stored before the label is parsed, so it is
  kept when the parse raises; the score is not advanced then.
\<close>

fun obligation_loop ::
  "session \<Rightarrow> question_table \<Rightarrow> int \<times> responses \<times> string list \<Rightarrow> exn option \<times> int \<times> responses \<times> string list"
where
  "obligation_loop w [] acc = (None, acc)"
| "obligation_loop w ((key, question, options) # rest) (score, resp, a) =
     (let user_choice = radio_by_key w (''obligation_'' @ key);
          resp' = AList.update key user_choice resp;
          a' = a @ [''obligation_'' @ key]
      in case numeric_val user_choice of
           Inl e \<Rightarrow> (Some e, score, resp', a')
         | Inr v \<Rightarrow> obligation_loop w rest (score + v, resp', a'))"

definition step4 :: "session \<Rightarrow> globals \<Rightarrow> status \<times> globals" where
  "step4 w g =
     (case obligation_loop w baseline_obligations (0, [], asked g) of
        (r, score, resp, a) \<Rightarrow>
          (let g1 = g\<lparr>baseline_score := Some score, obligation_responses := Some resp,
                      asked := a\<rparr>
           in case r of Some e \<Rightarrow> (Raised e, g1) | None \<Rightarrow> (Continue, g1)))"

subsection \<open>Step 5: systemic risk (lines 243--286)\<close>

definition systemic_questions :: question_table where
  "systemic_questions =
     [(''flop_threshold'',
         (''Did training exceed ~10^25 FLOPs? (Article 51(2))'', [''No'', ''Yes''])),
      (''sota_advancement'',
         (''Is the model near state-of-the-art or has an equivalent high impact? (Article 51(1))'',
          [''No'', ''Yes''])),
      (''mass_deployment'',
         (''Is/will the model be widely deployed or integrated, potentially influencing large-scale users?'',
          [''No'', ''Yes''])),
      (''harmful_scaffolding'',
         (''Could the model significantly enable harmful applications via generative or scaffolding features?'',
          [''No'', ''Yes'']))]"

definition yes_no_map :: "(string \<times> int) list" where
  "yes_no_map = [(''No'', 0), (''Yes'', 1)]"

text \<open>The loop of lines 266--269.\<close>

fun systemic_loop ::
  "session \<Rightarrow> question_table \<Rightarrow> int \<times> responses \<times> string list \<Rightarrow> exn option \<times> int \<times> responses \<times> string list"
where
  "systemic_loop w [] acc = (None, acc)"
| "systemic_loop w ((key, question, options) # rest) (score, resp, a) =
     (let user_choice = radio_by_key w (''sys_'' @ key);
          resp' = AList.update key user_choice resp;
          a' = a @ [''sys_'' @ key]
      in case dict_get yes_no_map user_choice of
           Inl e \<Rightarrow> (Some e, score, resp', a')
         | Inr points \<Rightarrow> systemic_loop w rest (score + points, resp', a'))"

text \<open>
  Lines 272--286. The \<^verbatim>\<open>or\<close> of line 273 reads \<^verbatim>\<open>sota_advancement\<close> only when
  \<^verbatim>\<open>flop_threshold\<close> is not "Yes"; the radio of line 280 is rendered only in the
  \<^verbatim>\<open>elif\<close> branch.
\<close>

definition classify_systemic :: "session \<Rightarrow> int \<Rightarrow> responses \<Rightarrow> globals \<Rightarrow> status \<times> globals" where
  "classify_systemic w score resp g =
     (let g1 = g\<lparr>systemic_classification := Some ''No''\<rparr>;
          yes = (Continue, g1\<lparr>systemic_classification := Some ''Yes''\<rparr>)
      in case dict_get resp ''flop_threshold'' of
           Inl e \<Rightarrow> (Raised e, g1)
         | Inr flop \<Rightarrow>
             if flop = ''Yes'' then yes
             else (case dict_get resp ''sota_advancement'' of
                     Inl e \<Rightarrow> (Raised e, g1)
                   | Inr sota \<Rightarrow>
                       if sota = ''Yes'' then yes
                       else if score > 1 then
                         (let g2 = g1\<lparr>asked := asked g1 @ [''borderline_sysrisk''],
                                      final_risk_decision := Some (borderline_sysrisk w)\<rparr>
                          in if borderline_sysrisk w = ''Yes - High Impact/Systemic''
                             then (Continue, g2\<lparr>systemic_classification := Some ''Yes''\<rparr>)
                             else (Continue, g2))
                       else (Continue, g1)))"

definition step5 :: "session \<Rightarrow> globals \<Rightarrow> status \<times> globals" where
  "step5 w g =
     (case systemic_loop w systemic_questions (0, [], asked g) of
        (r, score, resp, a) \<Rightarrow>
          (let g1 = g\<lparr>systemic_score := Some score, systemic_responses := Some resp,
                      asked := a\<rparr>
           in case r of
                Some e \<Rightarrow> (Raised e, g1)
              | None \<Rightarrow> classify_systemic w score resp g1))"

subsection \<open>Step 6: aggregation (lines 295--321)\<close>

definition classify_compliance :: "int \<Rightarrow> string" where
  "classify_compliance overall =
     (if overall \<ge> 12 then ''Compliant or Mostly Compliant with Baseline GPAI Obligations''
      else if overall \<ge> 8 then ''Provisionally Compliant (Some Gaps)''
      else ''Non-Compliant / High Risk (Insufficient Baseline) - Remediation Needed'')"

text \<open>
  Reading a variable that no earlier line assigned raises NameError: lines 295 and 301
  read \<^verbatim>\<open>prelim_score\<close>, \<^verbatim>\<open>baseline_score\<close> and \<^verbatim>\<open>systemic_classification\<close>.
\<close>

definition step6 :: "session \<Rightarrow> globals \<Rightarrow> status \<times> globals" where
  "step6 w g =
     (case prelim_score g of
        None \<Rightarrow> (Raised NameError, g)
      | Some p \<Rightarrow>
     (case baseline_score g of
        None \<Rightarrow> (Raised NameError, g)
      | Some b \<Rightarrow>
     (let g1 = g\<lparr>overall_score := Some (p + b)\<rparr>
      in case systemic_classification g1 of
           None \<Rightarrow> (Raised NameError, g1)
         | Some sc \<Rightarrow>
             (let status_text = classify_compliance (p + b);
                  g2 = g1\<lparr>compliance_status := Some status_text\<rparr>
              in if status_text \<in> set [''Provisionally Compliant (Some Gaps)'',
                     ''Non-Compliant / High Risk (Insufficient Baseline) - Remediation Needed'']
                 then (Continue, g2\<lparr>asked := asked g2 @ [''user_remediation''],
                                     user_remediation := Some (remediation_text w)\<rparr>)
                 else (Continue, g2)))))"

subsection \<open>Step 7: the report (lines 339--375)\<close>

text \<open>The three merge loops of lines 350--355: \<^verbatim>\<open>report_data[f"{prefix}{k}"] = v\<close>.\<close>

fun merge_responses :: "string \<Rightarrow> responses \<Rightarrow> (string \<times> pyval) list \<Rightarrow> (string \<times> pyval) list" where
  "merge_responses prefix [] d = d"
| "merge_responses prefix ((k, v) # rest) d =
     merge_responses prefix rest (AList.update (prefix @ k) (PStr v) d)"

text \<open>
  The export of lines 365--375 hands the one-row frame \<^verbatim>\<open>[report_data]\<close> to pandas and the
  resulting text to the download button; \<open>download\<close> records the file name and that frame.
\<close>

definition step7 :: "session \<Rightarrow> globals \<Rightarrow> status \<times> globals" where
  "step7 w g =
     (case prelim_score g of None \<Rightarrow> (Raised NameError, g) | Some p \<Rightarrow>
     (case baseline_score g of None \<Rightarrow> (Raised NameError, g) | Some b \<Rightarrow>
     (case systemic_classification g of None \<Rightarrow> (Raised NameError, g) | Some sc \<Rightarrow>
     (case compliance_status g of None \<Rightarrow> (Raised NameError, g) | Some cs \<Rightarrow>
     (let d0 = [(''Provider Type (Recital 109)'', PStr (provider_type w)),
                (''Provider Justification'', PStr (provider_context_justification w)),
                (''Specialized Model Step1'', PStr (specialized_radio w)),
                (''Preliminary Score'', PInt p),
                (''Baseline Score'', PInt b),
                (''Systemic Risk? (Article 51)'', PStr sc),
                (''Overall Compliance Status'', PStr cs)];
          g0 = g\<lparr>report_data := Some d0\<rparr>
      in
     (case responses_step3 g of None \<Rightarrow> (Raised NameError, g0) | Some r3 \<Rightarrow>
     (let d1 = merge_responses ''Step3_'' r3 d0; g1 = g\<lparr>report_data := Some d1\<rparr> in
     (case obligation_responses g of None \<Rightarrow> (Raised NameError, g1) | Some r4 \<Rightarrow>
     (let d2 = merge_responses ''Step4_'' r4 d1; g2 = g\<lparr>report_data := Some d2\<rparr> in
     (case systemic_responses g of None \<Rightarrow> (Raised NameError, g2) | Some r5 \<Rightarrow>
     (let d3 = merge_responses ''Step5_'' r5 d2;
          d4 = AList.update ''Model Name'' (PStr (model_name w)) d3;
          d5 = AList.update ''Provider Name'' (PStr (provider_name w)) d4;
          g3 = g\<lparr>report_data := Some d5,
                  asked := asked g @ [''model_name'', ''provider_name'', ''generate_button'']\<rparr>
      in if generate_button w
         then (Continue, g3\<lparr>download := Some (''GPAI_Assessment_'' @ model_name w @ ''.csv'', [d5])\<rparr>)
         else (Continue, g3))))))))))))"

subsection \<open>The whole script\<close>

definition upto_step2 :: "session \<Rightarrow> status \<times> globals" where
  "upto_step2 w = and_then (step0 w) (and_then (step1 w) (step2 w)) init_globals"

definition from_step4 :: "session \<Rightarrow> globals \<Rightarrow> status \<times> globals" where
  "from_step4 w = and_then (step4 w) (and_then (step5 w) (and_then (step6 w) (step7 w)))"

definition from_step3 :: "session \<Rightarrow> globals \<Rightarrow> status \<times> globals" where
  "from_step3 w = and_then (step3 w) (from_step4 w)"

definition script :: "session \<Rightarrow> status \<times> globals" where
  "script w = (case upto_step2 w of (Continue, g) \<Rightarrow> from_step3 w g | (r, g) \<Rightarrow> (r, g))"

subsection \<open>Well-formed sessions\<close>

text \<open>
  A radio returns one of the options it was created with. \<open>choices_ok w prefix qs\<close> says
  so for the radios of one question table.
\<close>

definition choices_ok :: "session \<Rightarrow> string \<Rightarrow> question_table \<Rightarrow> bool" where
  "choices_ok w prefix qs =
     list_all (\<lambda>(key, question, options). radio_by_key w (prefix @ key) \<in> set options) qs"

subsection \<open>The specification's vocabulary\<close>

text \<open>The two point maps of preliminary scoring, as the specification lists them.\<close>

definition spec_param_scale :: "string \<rightharpoonup> int" where
  "spec_param_scale = [''< 1B'' \<mapsto> 0, ''1B'' @ en_dash @ ''10B'' \<mapsto> 1, ''> 10B'' \<mapsto> 2]"

definition spec_yes_partly_no :: "string \<rightharpoonup> int" where
  "spec_yes_partly_no = [''No'' \<mapsto> 0, ''Partly'' \<mapsto> 1, ''Yes'' \<mapsto> 2]"

text \<open>The number of affirmative answers among the four systemic questions.\<close>

definition affirmative_count :: "session \<Rightarrow> int" where
  "affirmative_count w =
     int (length (filter (\<lambda>key. radio_by_key w (''sys_'' @ key) = ''Yes'')
                         (map fst systemic_questions)))"

text \<open>The ranges of the three tallies; a tally not yet assigned is in range.\<close>

fun within :: "int \<Rightarrow> int \<Rightarrow> int option \<Rightarrow> bool" where
  "within lo hi None = True"
| "within lo hi (Some v) = (lo \<le> v \<and> v \<le> hi)"

definition scores_in_range :: "globals \<Rightarrow> bool" where
  "scores_in_range g \<longleftrightarrow>
     within 0 8 (prelim_score g) \<and> within 0 8 (baseline_score g) \<and> within 0 16 (overall_score g)"

text \<open>
  The globals after the two gates: with the four modification radios rendered and
  \<^verbatim>\<open>substantial_mod\<close> assigned (third party), or without them (internally developed).
\<close>

definition after_gates :: "bool option \<Rightarrow> globals" where
  "after_gates sm =
     (case sm of
        None \<Rightarrow>
          init_globals\<lparr>asked := [''provider_type'', ''provider_context_justification'',
            ''specialized_radio'', ''developed_internally'']\<rparr>
      | Some b \<Rightarrow>
          init_globals\<lparr>asked := [''provider_type'', ''provider_context_justification'',
            ''specialized_radio'', ''developed_internally'', ''mod_param_change'',
            ''mod_purpose_change'', ''mod_data_change'', ''mod_integration_change''],
            substantial_mod := Some b\<rparr>)"

subsection \<open>A sample session\<close>

definition sample_radios :: "(string \<times> string) list" where
  "sample_radios =
     [(''mod_param_change'', ''No''), (''mod_purpose_change'', ''Yes''),
      (''mod_data_change'', ''No''), (''mod_integration_change'', ''No''),
      (''prelim_param_scale'', ''> 10B''), (''prelim_training_scope'', ''Yes''),
      (''prelim_broad_ability'', ''Partly''), (''prelim_generative_cap'', ''No''),
      (''obligation_tech_doc'', ''Fully in place (2)''),
      (''obligation_instructions'', ''1 - Some partial instructions''),
      (''obligation_copyright'', ''2 - Fully documented policy''),
      (''obligation_data_summary'', ''0 - Not published''),
      (''sys_flop_threshold'', ''No''), (''sys_sota_advancement'', ''No''),
      (''sys_mass_deployment'', ''Yes''), (''sys_harmful_scaffolding'', ''Yes'')]"

definition sample_session :: session where
  "sample_session =
     \<lparr>provider_type = ''SME or startup'',
      provider_context_justification = ''small team'',
      specialized_radio = ''No (Potentially General-Purpose)'',
      developed_internally = ''Third Party'',
      radio_by_key = (\<lambda>k. case map_of sample_radios k of Some v \<Rightarrow> v | None \<Rightarrow> []),
      borderline_sysrisk = ''Yes - High Impact/Systemic'',
      remediation_text = ''publish the data summary'',
      model_name = ''m1'',
      provider_name = ''acme'',
      generate_button = True\<rparr>"

section \<open>Properties\<close>

subsection \<open>The loops and the steps, one by one\<close>

lemmas parse_defs = numeric_val_def subscript_def py_int_def str_strip_def is_space_def
  signed_decimal_def decimal_def digit_of_def

lemma numeric_val_tech_doc:
  "numeric_val ''Not in place (0)'' = Inr 0"
  "numeric_val ''Partially in place (1)'' = Inr 1"
  "numeric_val ''Fully in place (2)'' = Inr 2"
  by (simp_all add: parse_defs)

lemma numeric_val_dash_labels:
  "numeric_val ''0 - None'' = Inl ValueError"
  "numeric_val ''1 - Some partial instructions'' = Inl ValueError"
  "numeric_val ''2 - Comprehensive guidelines'' = Inl ValueError"
  by (simp_all add: parse_defs)

lemma step4_raises:
  assumes "choices_ok w ''obligation_'' baseline_obligations"
  shows "\<exists>v. 0 \<le> v \<and> v \<le> 2 \<and>
    step4 w g = (Raised ValueError,
      g\<lparr>baseline_score := Some v,
        obligation_responses := Some [(''tech_doc'', radio_by_key w ''obligation_tech_doc''),
           (''instructions'', radio_by_key w ''obligation_instructions'')],
        asked := asked g @ [''obligation_tech_doc'', ''obligation_instructions'']\<rparr>)"
proof -
  from assms have t: "radio_by_key w ''obligation_tech_doc'' \<in>
      set [''Not in place (0)'', ''Partially in place (1)'', ''Fully in place (2)'']"
    and i: "radio_by_key w ''obligation_instructions'' \<in>
      set [''0 - None'', ''1 - Some partial instructions'', ''2 - Comprehensive guidelines'']"
    by (simp_all add: choices_ok_def baseline_obligations_def)
  from t obtain v where v: "numeric_val (radio_by_key w ''obligation_tech_doc'') = Inr v"
      "0 \<le> v" "v \<le> 2"
    by (auto simp: numeric_val_tech_doc)
  from i have e: "numeric_val (radio_by_key w ''obligation_instructions'') = Inl ValueError"
    by (auto simp: numeric_val_dash_labels)
  show ?thesis using v e
    by (intro exI [of _ v]) (simp add: step4_def baseline_obligations_def)
qed

lemma mod_loop_result:
  "mod_loop w substantial_mod_questions (False, a) =
     (radio_by_key w ''mod_param_change'' = ''Yes'' \<or>
      radio_by_key w ''mod_purpose_change'' = ''Yes'' \<or>
      radio_by_key w ''mod_data_change'' = ''Yes'' \<or>
      radio_by_key w ''mod_integration_change'' = ''Yes'',
      a @ [''mod_param_change'', ''mod_purpose_change'', ''mod_data_change'',
           ''mod_integration_change''])"
  by (auto simp: substantial_mod_questions_def)

lemma param_scale_lookup:
  assumes "c \<in> set [''< 1B'', ''1B'' @ en_dash @ ''10B'', ''> 10B'']"
  shows "\<exists>p. spec_param_scale c = Some p \<and> dict_get param_scale_score_map c = Inr p \<and>
             0 \<le> p \<and> p \<le> 2"
  using assms
  by (auto simp: spec_param_scale_def dict_get_def param_scale_score_map_def en_dash_def)

lemma yes_partly_no_lookup:
  assumes "c \<in> set [''No'', ''Partly'', ''Yes'']"
  shows "\<exists>p. spec_yes_partly_no c = Some p \<and> dict_get yes_partly_no_map c = Inr p \<and>
             0 \<le> p \<and> p \<le> 2"
  using assms by (auto simp: spec_yes_partly_no_def dict_get_def yes_partly_no_map_def)

lemma prelim_loop_result:
  assumes "dict_get param_scale_score_map (radio_by_key w ''prelim_param_scale'') = Inr p1"
    and "dict_get yes_partly_no_map (radio_by_key w ''prelim_training_scope'') = Inr p2"
    and "dict_get yes_partly_no_map (radio_by_key w ''prelim_broad_ability'') = Inr p3"
    and "dict_get yes_partly_no_map (radio_by_key w ''prelim_generative_cap'') = Inr p4"
  shows "prelim_loop w preliminary_questions (0, [], a) =
     (None, p1 + p2 + p3 + p4,
      [(''param_scale'', radio_by_key w ''prelim_param_scale''),
       (''training_scope'', radio_by_key w ''prelim_training_scope''),
       (''broad_ability'', radio_by_key w ''prelim_broad_ability''),
       (''generative_cap'', radio_by_key w ''prelim_generative_cap'')],
      a @ [''prelim_param_scale'', ''prelim_training_scope'', ''prelim_broad_ability'',
           ''prelim_generative_cap''])"
  using assms by (simp add: preliminary_questions_def)

lemma yes_no_lookup:
  assumes "c \<in> set [''No'', ''Yes'']"
  shows "dict_get yes_no_map c = Inr (if c = ''Yes'' then 1 else 0)"
  using assms by (auto simp: dict_get_def yes_no_map_def)

lemma systemic_loop_result:
  assumes "dict_get yes_no_map (radio_by_key w ''sys_flop_threshold'') = Inr q1"
    and "dict_get yes_no_map (radio_by_key w ''sys_sota_advancement'') = Inr q2"
    and "dict_get yes_no_map (radio_by_key w ''sys_mass_deployment'') = Inr q3"
    and "dict_get yes_no_map (radio_by_key w ''sys_harmful_scaffolding'') = Inr q4"
  shows "systemic_loop w systemic_questions (0, [], a) =
     (None, q1 + q2 + q3 + q4,
      [(''flop_threshold'', radio_by_key w ''sys_flop_threshold''),
       (''sota_advancement'', radio_by_key w ''sys_sota_advancement''),
       (''mass_deployment'', radio_by_key w ''sys_mass_deployment''),
       (''harmful_scaffolding'', radio_by_key w ''sys_harmful_scaffolding'')],
      a @ [''sys_flop_threshold'', ''sys_sota_advancement'', ''sys_mass_deployment'',
           ''sys_harmful_scaffolding''])"
  using assms by (simp add: systemic_questions_def)

lemma affirmative_count_sum:
  "affirmative_count w =
     (if radio_by_key w ''sys_flop_threshold'' = ''Yes'' then 1 else 0) +
     (if radio_by_key w ''sys_sota_advancement'' = ''Yes'' then 1 else 0) +
     (if radio_by_key w ''sys_mass_deployment'' = ''Yes'' then 1 else 0) +
     (if radio_by_key w ''sys_harmful_scaffolding'' = ''Yes'' then 1 else 0)"
  by (simp add: affirmative_count_def systemic_questions_def)

lemma sample_fields:
  "provider_type sample_session = ''SME or startup''"
  "provider_context_justification sample_session = ''small team''"
  "specialized_radio sample_session = ''No (Potentially General-Purpose)''"
  "developed_internally sample_session = ''Third Party''"
  "borderline_sysrisk sample_session = ''Yes - High Impact/Systemic''"
  "remediation_text sample_session = ''publish the data summary''"
  "model_name sample_session = ''m1''"
  "provider_name sample_session = ''acme''"
  "generate_button sample_session = True"
  by (simp_all add: sample_session_def)

lemma sample_radio:
  "radio_by_key sample_session ''mod_param_change'' = ''No''"
  "radio_by_key sample_session ''mod_purpose_change'' = ''Yes''"
  "radio_by_key sample_session ''mod_data_change'' = ''No''"
  "radio_by_key sample_session ''mod_integration_change'' = ''No''"
  "radio_by_key sample_session ''prelim_param_scale'' = ''> 10B''"
  "radio_by_key sample_session ''prelim_training_scope'' = ''Yes''"
  "radio_by_key sample_session ''prelim_broad_ability'' = ''Partly''"
  "radio_by_key sample_session ''prelim_generative_cap'' = ''No''"
  "radio_by_key sample_session ''obligation_tech_doc'' = ''Fully in place (2)''"
  "radio_by_key sample_session ''obligation_instructions'' = ''1 - Some partial instructions''"
  "radio_by_key sample_session ''obligation_copyright'' = ''2 - Fully documented policy''"
  "radio_by_key sample_session ''obligation_data_summary'' = ''0 - Not published''"
  "radio_by_key sample_session ''sys_flop_threshold'' = ''No''"
  "radio_by_key sample_session ''sys_sota_advancement'' = ''No''"
  "radio_by_key sample_session ''sys_mass_deployment'' = ''Yes''"
  "radio_by_key sample_session ''sys_harmful_scaffolding'' = ''Yes''"
  by (simp_all add: sample_session_def sample_radios_def)

lemma sample_choices_ok:
  "choices_ok sample_session ''prelim_'' preliminary_questions"
  "choices_ok sample_session ''obligation_'' baseline_obligations"
  "choices_ok sample_session ''sys_'' systemic_questions"
  by (simp_all add: choices_ok_def preliminary_questions_def baseline_obligations_def
      systemic_questions_def sample_radio)

lemma step2_third_party:
  assumes "developed_internally w = ''Third Party''"
  shows "step2 w g =
    (let sm = (radio_by_key w ''mod_param_change'' = ''Yes'' \<or>
               radio_by_key w ''mod_purpose_change'' = ''Yes'' \<or>
               radio_by_key w ''mod_data_change'' = ''Yes'' \<or>
               radio_by_key w ''mod_integration_change'' = ''Yes'');
         g2 = g\<lparr>asked := asked g @ [''developed_internally'', ''mod_param_change'',
                     ''mod_purpose_change'', ''mod_data_change'', ''mod_integration_change''],
                substantial_mod := Some sm\<rparr>
     in if sm then (Continue, g2) else (Stopped Not_Provider, g2))"
  using assms by (simp add: step2_def mod_loop_result Let_def)

lemma step2_internal:
  assumes "developed_internally w \<noteq> ''Third Party''"
  shows "step2 w g = (Continue, g\<lparr>asked := asked g @ [''developed_internally'']\<rparr>)"
  using assms by (simp add: step2_def)

lemma upto_step2_unfold:
  "upto_step2 w =
     (if specialized_radio w = ''Yes (Specialized/Narrow)''
      then (Stopped Out_Of_Scope,
            init_globals\<lparr>asked := [''provider_type'', ''provider_context_justification'',
                                    ''specialized_radio'']\<rparr>)
      else step2 w (init_globals\<lparr>asked := [''provider_type'',
                      ''provider_context_justification'', ''specialized_radio'']\<rparr>))"
  by (simp add: upto_step2_def and_then_def step0_def step1_def init_globals_def)

lemma step3_result:
  assumes "choices_ok w ''prelim_'' preliminary_questions"
  shows "\<exists>p1 p2 p3 p4.
    spec_param_scale (radio_by_key w ''prelim_param_scale'') = Some p1 \<and>
    spec_yes_partly_no (radio_by_key w ''prelim_training_scope'') = Some p2 \<and>
    spec_yes_partly_no (radio_by_key w ''prelim_broad_ability'') = Some p3 \<and>
    spec_yes_partly_no (radio_by_key w ''prelim_generative_cap'') = Some p4 \<and>
    0 \<le> p1 + p2 + p3 + p4 \<and> p1 + p2 + p3 + p4 \<le> 8 \<and>
    step3 w g =
      (if p1 + p2 + p3 + p4 < 3 then Stopped Below_Threshold else Continue,
       g\<lparr>prelim_score := Some (p1 + p2 + p3 + p4),
         responses_step3 := Some
           [(''param_scale'', radio_by_key w ''prelim_param_scale''),
            (''training_scope'', radio_by_key w ''prelim_training_scope''),
            (''broad_ability'', radio_by_key w ''prelim_broad_ability''),
            (''generative_cap'', radio_by_key w ''prelim_generative_cap'')],
         asked := asked g @ [''prelim_param_scale'', ''prelim_training_scope'',
            ''prelim_broad_ability'', ''prelim_generative_cap'']\<rparr>)"
proof -
  from assms have c:
    "radio_by_key w ''prelim_param_scale'' \<in> set [''< 1B'', ''1B'' @ en_dash @ ''10B'', ''> 10B'']"
    "radio_by_key w ''prelim_training_scope'' \<in> set [''No'', ''Partly'', ''Yes'']"
    "radio_by_key w ''prelim_broad_ability'' \<in> set [''No'', ''Partly'', ''Yes'']"
    "radio_by_key w ''prelim_generative_cap'' \<in> set [''No'', ''Partly'', ''Yes'']"
    by (simp_all add: choices_ok_def preliminary_questions_def)
  from param_scale_lookup [OF c(1)] obtain p1 where p1:
    "spec_param_scale (radio_by_key w ''prelim_param_scale'') = Some p1"
    "dict_get param_scale_score_map (radio_by_key w ''prelim_param_scale'') = Inr p1"
    "0 \<le> p1" "p1 \<le> 2" by blast
  from yes_partly_no_lookup [OF c(2)] obtain p2 where p2:
    "spec_yes_partly_no (radio_by_key w ''prelim_training_scope'') = Some p2"
    "dict_get yes_partly_no_map (radio_by_key w ''prelim_training_scope'') = Inr p2"
    "0 \<le> p2" "p2 \<le> 2" by blast
  from yes_partly_no_lookup [OF c(3)] obtain p3 where p3:
    "spec_yes_partly_no (radio_by_key w ''prelim_broad_ability'') = Some p3"
    "dict_get yes_partly_no_map (radio_by_key w ''prelim_broad_ability'') = Inr p3"
    "0 \<le> p3" "p3 \<le> 2" by blast
  from yes_partly_no_lookup [OF c(4)] obtain p4 where p4:
    "spec_yes_partly_no (radio_by_key w ''prelim_generative_cap'') = Some p4"
    "dict_get yes_partly_no_map (radio_by_key w ''prelim_generative_cap'') = Inr p4"
    "0 \<le> p4" "p4 \<le> 2" by blast
  have loop: "prelim_loop w preliminary_questions (0, [], asked g) =
     (None, p1 + p2 + p3 + p4,
      [(''param_scale'', radio_by_key w ''prelim_param_scale''),
       (''training_scope'', radio_by_key w ''prelim_training_scope''),
       (''broad_ability'', radio_by_key w ''prelim_broad_ability''),
       (''generative_cap'', radio_by_key w ''prelim_generative_cap'')],
      asked g @ [''prelim_param_scale'', ''prelim_training_scope'', ''prelim_broad_ability'',
           ''prelim_generative_cap''])"
    by (rule prelim_loop_result [OF p1(2) p2(2) p3(2) p4(2)])
  have s: "step3 w g =
      (if p1 + p2 + p3 + p4 < 3 then Stopped Below_Threshold else Continue,
       g\<lparr>prelim_score := Some (p1 + p2 + p3 + p4),
         responses_step3 := Some
           [(''param_scale'', radio_by_key w ''prelim_param_scale''),
            (''training_scope'', radio_by_key w ''prelim_training_scope''),
            (''broad_ability'', radio_by_key w ''prelim_broad_ability''),
            (''generative_cap'', radio_by_key w ''prelim_generative_cap'')],
         asked := asked g @ [''prelim_param_scale'', ''prelim_training_scope'',
            ''prelim_broad_ability'', ''prelim_generative_cap'']\<rparr>)"
    unfolding step3_def loop by simp
  have r: "0 \<le> p1 + p2 + p3 + p4" "p1 + p2 + p3 + p4 \<le> 8"
    using p1(3,4) p2(3,4) p3(3,4) p4(3,4) by linarith+
  show ?thesis using p1(1) p2(1) p3(1) p4(1) r s by blast
qed

lemma step5_result:
  assumes "choices_ok w ''sys_'' systemic_questions"
  shows "step5 w g =
    (let flop = radio_by_key w ''sys_flop_threshold'';
         sota = radio_by_key w ''sys_sota_advancement'';
         g5 = g\<lparr>systemic_score := Some (affirmative_count w),
                systemic_responses := Some
                  [(''flop_threshold'', flop), (''sota_advancement'', sota),
                   (''mass_deployment'', radio_by_key w ''sys_mass_deployment''),
                   (''harmful_scaffolding'', radio_by_key w ''sys_harmful_scaffolding'')],
                asked := asked g @ [''sys_flop_threshold'', ''sys_sota_advancement'',
                   ''sys_mass_deployment'', ''sys_harmful_scaffolding'']\<rparr>
     in if flop = ''Yes'' \<or> sota = ''Yes'' then
          (Continue, g5\<lparr>systemic_classification := Some ''Yes''\<rparr>)
        else if affirmative_count w > 1 then
          (Continue, g5\<lparr>asked := asked g5 @ [''borderline_sysrisk''],
                         final_risk_decision := Some (borderline_sysrisk w),
                         systemic_classification :=
                           Some (if borderline_sysrisk w = ''Yes - High Impact/Systemic''
                                 then ''Yes'' else ''No'')\<rparr>)
        else (Continue, g5\<lparr>systemic_classification := Some ''No''\<rparr>))"
proof -
  from assms have c:
    "radio_by_key w ''sys_flop_threshold'' \<in> set [''No'', ''Yes'']"
    "radio_by_key w ''sys_sota_advancement'' \<in> set [''No'', ''Yes'']"
    "radio_by_key w ''sys_mass_deployment'' \<in> set [''No'', ''Yes'']"
    "radio_by_key w ''sys_harmful_scaffolding'' \<in> set [''No'', ''Yes'']"
    by (simp_all add: choices_ok_def systemic_questions_def)
  have loop: "systemic_loop w systemic_questions (0, [], asked g) =
     (None, affirmative_count w,
      [(''flop_threshold'', radio_by_key w ''sys_flop_threshold''),
       (''sota_advancement'', radio_by_key w ''sys_sota_advancement''),
       (''mass_deployment'', radio_by_key w ''sys_mass_deployment''),
       (''harmful_scaffolding'', radio_by_key w ''sys_harmful_scaffolding'')],
      asked g @ [''sys_flop_threshold'', ''sys_sota_advancement'', ''sys_mass_deployment'',
           ''sys_harmful_scaffolding''])"
    unfolding affirmative_count_sum
    by (rule systemic_loop_result [OF yes_no_lookup [OF c(1)] yes_no_lookup [OF c(2)]
          yes_no_lookup [OF c(3)] yes_no_lookup [OF c(4)]])
  show ?thesis
    unfolding step5_def loop
    by (simp add: classify_systemic_def dict_get_def Let_def)
qed

subsection \<open>Parsing the option labels\<close>

text \<open>
  Claim C1. The claim: for every selection from the declared option lists of the four
  baseline questions, extracting the number from the label succeeds and
  \<^verbatim>\<open>baseline_score\<close> is the sum of the four numbers. The script does otherwise: on the
  sample session, whose answers pass the three gates, the label
  \<^verbatim>\<open>1 - Some partial instructions\<close> has no parenthesis, so line 225 hands the whole
  label to \<^verbatim>\<open>int\<close> and raises ValueError; the script ends there with
  \<^verbatim>\<open>baseline_score = 2\<close> (the \<^verbatim>\<open>tech_doc\<close> value alone), and neither
  \<^verbatim>\<open>overall_score\<close> nor \<^verbatim>\<open>report_data\<close> is ever assigned.
\<close>

theorem baseline_label_parse_raises:
  "numeric_val ''1 - Some partial instructions'' = Inl ValueError \<and>
   fst (script sample_session) = Raised ValueError \<and>
   baseline_score (snd (script sample_session)) = Some 2 \<and>
   overall_score (snd (script sample_session)) = None \<and>
   report_data (snd (script sample_session)) = None"
  by (simp add: script_def upto_step2_unfold sample_fields step2_third_party sample_radio
      from_step3_def from_step4_def and_then_def step3_def step4_def
      preliminary_questions_def baseline_obligations_def dict_get_def
      param_scale_score_map_def yes_partly_no_map_def en_dash_def
      numeric_val_tech_doc numeric_val_dash_labels init_globals_def Let_def)

subsection \<open>Systemic risk\<close>

text \<open>
  Claim C2. Step 5, entered with any globals and with the four systemic answers taken
  from their option lists, falls through with \<^verbatim>\<open>systemic_score\<close> the number of "Yes"
  answers and: if \<^verbatim>\<open>flop_threshold\<close> or \<^verbatim>\<open>sota_advancement\<close> is "Yes", the
  classification is "Yes" and only the four questions were rendered; otherwise, if the
  score exceeds 1, the override radio is rendered after them and its answer alone fixes
  the classification; otherwise the classification is "No" and the override radio is not
  rendered.
\<close>

theorem systemic_three_branch_rule:
  assumes "choices_ok w ''sys_'' systemic_questions"
  shows "step5 w g =
    (let flop = radio_by_key w ''sys_flop_threshold'';
         sota = radio_by_key w ''sys_sota_advancement'';
         g5 = g\<lparr>systemic_score := Some (affirmative_count w),
                systemic_responses := Some
                  [(''flop_threshold'', flop), (''sota_advancement'', sota),
                   (''mass_deployment'', radio_by_key w ''sys_mass_deployment''),
                   (''harmful_scaffolding'', radio_by_key w ''sys_harmful_scaffolding'')],
                asked := asked g @ [''sys_flop_threshold'', ''sys_sota_advancement'',
                   ''sys_mass_deployment'', ''sys_harmful_scaffolding'']\<rparr>
     in if flop = ''Yes'' \<or> sota = ''Yes'' then
          (Continue, g5\<lparr>systemic_classification := Some ''Yes''\<rparr>)
        else if affirmative_count w > 1 then
          (Continue, g5\<lparr>asked := asked g5 @ [''borderline_sysrisk''],
                         final_risk_decision := Some (borderline_sysrisk w),
                         systemic_classification :=
                           Some (if borderline_sysrisk w = ''Yes - High Impact/Systemic''
                                 then ''Yes'' else ''No'')\<rparr>)
        else (Continue, g5\<lparr>systemic_classification := Some ''No''\<rparr>))"
  by (rule step5_result [OF assms])

theorem systemic_three_branch_rule_witness:
  "choices_ok sample_session ''sys_'' systemic_questions \<and>
   affirmative_count sample_session = 2 \<and>
   fst (step5 sample_session init_globals) = Continue \<and>
   systemic_classification (snd (step5 sample_session init_globals)) = Some ''Yes'' \<and>
   asked (snd (step5 sample_session init_globals)) =
     [''sys_flop_threshold'', ''sys_sota_advancement'', ''sys_mass_deployment'',
      ''sys_harmful_scaffolding'', ''borderline_sysrisk'']"
proof -
  have n: "affirmative_count sample_session = 2"
    by (simp add: affirmative_count_sum sample_radio)
  show ?thesis
    using n systemic_three_branch_rule [OF sample_choices_ok(3), of init_globals]
    by (simp add: sample_choices_ok sample_radio sample_fields init_globals_def Let_def)
qed

lemma script_specialized:
  assumes "specialized_radio w = ''Yes (Specialized/Narrow)''"
  shows "script w = (Stopped Out_Of_Scope,
     init_globals\<lparr>asked := [''provider_type'', ''provider_context_justification'',
                             ''specialized_radio'']\<rparr>)"
  using assms by (simp add: script_def upto_step2_unfold)

subsection \<open>The gates\<close>

text \<open>
  Claim C5. When the specialization radio holds "Yes (Specialized/Narrow)", the script
  stops at line 79 with the Out-of-Scope verdict: only the provider context and the
  specialization question were rendered, and no tally, classification or report field is
  assigned. The result does not mention any other answer of the session.
\<close>

theorem specialized_terminates_out_of_scope:
  assumes "specialized_radio w = ''Yes (Specialized/Narrow)''"
  shows "script w = (Stopped Out_Of_Scope,
     init_globals\<lparr>asked := [''provider_type'', ''provider_context_justification'',
                             ''specialized_radio'']\<rparr>) \<and>
    prelim_score (snd (script w)) = None \<and> baseline_score (snd (script w)) = None \<and>
    systemic_score (snd (script w)) = None \<and> overall_score (snd (script w)) = None \<and>
    systemic_classification (snd (script w)) = None \<and>
    compliance_status (snd (script w)) = None \<and> report_data (snd (script w)) = None"
  by (simp add: script_specialized [OF assms] init_globals_def)

theorem specialized_terminates_out_of_scope_witness:
  "script (sample_session\<lparr>specialized_radio := ''Yes (Specialized/Narrow)''\<rparr>) =
     (Stopped Out_Of_Scope,
      init_globals\<lparr>asked := [''provider_type'', ''provider_context_justification'',
                              ''specialized_radio'']\<rparr>)"
  using specialized_terminates_out_of_scope
    [of "sample_session\<lparr>specialized_radio := ''Yes (Specialized/Narrow)''\<rparr>"]
  by simp

lemma upto_step2_third_party:
  assumes "specialized_radio w \<noteq> ''Yes (Specialized/Narrow)''"
    and "developed_internally w = ''Third Party''"
  shows "upto_step2 w =
    (let sm = (radio_by_key w ''mod_param_change'' = ''Yes'' \<or>
               radio_by_key w ''mod_purpose_change'' = ''Yes'' \<or>
               radio_by_key w ''mod_data_change'' = ''Yes'' \<or>
               radio_by_key w ''mod_integration_change'' = ''Yes'')
     in (if sm then Continue else Stopped Not_Provider, after_gates (Some sm)))"
  using assms
  by (simp add: upto_step2_unfold step2_third_party after_gates_def Let_def init_globals_def)

lemma upto_step2_internal:
  assumes "specialized_radio w \<noteq> ''Yes (Specialized/Narrow)''"
    and "developed_internally w \<noteq> ''Third Party''"
  shows "upto_step2 w = (Continue, after_gates None)"
  using assms
  by (simp add: upto_step2_unfold step2_internal after_gates_def init_globals_def)

text \<open>
  Claim C6. For a session past the specialization gate: a third-party model with all four
  modification answers "No" gives \<^verbatim>\<open>substantial_mod = False\<close> and stops at line 120
  (Not-Provider); a third-party model with some answer "Yes" gives
  \<^verbatim>\<open>substantial_mod = True\<close> and the script goes on with step 3; an internally
  developed model goes on with step 3 without the four radios being rendered and without
  \<^verbatim>\<open>substantial_mod\<close> being assigned.
\<close>

theorem provider_gate:
  assumes "specialized_radio w \<noteq> ''Yes (Specialized/Narrow)''"
  shows "(developed_internally w = ''Third Party'' \<and>
          (\<forall>key \<in> set (map fst substantial_mod_questions).
              radio_by_key w (''mod_'' @ key) = ''No'') \<longrightarrow>
            upto_step2 w = (Stopped Not_Provider, after_gates (Some False)) \<and>
            script w = (Stopped Not_Provider, after_gates (Some False))) \<and>
         (developed_internally w = ''Third Party'' \<and>
          (\<exists>key \<in> set (map fst substantial_mod_questions).
              radio_by_key w (''mod_'' @ key) = ''Yes'') \<longrightarrow>
            upto_step2 w = (Continue, after_gates (Some True)) \<and>
            script w = from_step3 w (after_gates (Some True))) \<and>
         (developed_internally w = ''Internally Developed'' \<longrightarrow>
            upto_step2 w = (Continue, after_gates None) \<and>
            script w = from_step3 w (after_gates None))"
proof (intro conjI impI)
  assume a: "developed_internally w = ''Third Party'' \<and>
    (\<forall>key \<in> set (map fst substantial_mod_questions). radio_by_key w (''mod_'' @ key) = ''No'')"
  then have no: "radio_by_key w ''mod_param_change'' = ''No''"
    "radio_by_key w ''mod_purpose_change'' = ''No''"
    "radio_by_key w ''mod_data_change'' = ''No''"
    "radio_by_key w ''mod_integration_change'' = ''No''"
    by (simp_all add: substantial_mod_questions_def)
  from a assms show u: "upto_step2 w = (Stopped Not_Provider, after_gates (Some False))"
    by (simp add: upto_step2_third_party no)
  show "script w = (Stopped Not_Provider, after_gates (Some False))"
    by (simp add: script_def u)
next
  assume a: "developed_internally w = ''Third Party'' \<and>
    (\<exists>key \<in> set (map fst substantial_mod_questions). radio_by_key w (''mod_'' @ key) = ''Yes'')"
  then have yes: "radio_by_key w ''mod_param_change'' = ''Yes'' \<or>
               radio_by_key w ''mod_purpose_change'' = ''Yes'' \<or>
               radio_by_key w ''mod_data_change'' = ''Yes'' \<or>
               radio_by_key w ''mod_integration_change'' = ''Yes''"
    by (simp add: substantial_mod_questions_def)
  from a assms yes show u: "upto_step2 w = (Continue, after_gates (Some True))"
    by (simp add: upto_step2_third_party)
  show "script w = from_step3 w (after_gates (Some True))"
    by (simp add: script_def u)
next
  assume a: "developed_internally w = ''Internally Developed''"
  with assms show u: "upto_step2 w = (Continue, after_gates None)"
    by (simp add: upto_step2_internal)
  show "script w = from_step3 w (after_gates None)"
    by (simp add: script_def u)
qed

theorem provider_gate_witness:
  "upto_step2 sample_session = (Continue, after_gates (Some True)) \<and>
   script (sample_session\<lparr>radio_by_key := (\<lambda>k. ''No'')\<rparr>) =
     (Stopped Not_Provider, after_gates (Some False)) \<and>
   upto_step2 (sample_session\<lparr>developed_internally := ''Internally Developed''\<rparr>) =
     (Continue, after_gates None)"
proof -
  have a: "specialized_radio sample_session \<noteq> ''Yes (Specialized/Narrow)''"
    by (simp add: sample_fields)
  have b: "specialized_radio (sample_session\<lparr>radio_by_key := (\<lambda>k. ''No'')\<rparr>)
             \<noteq> ''Yes (Specialized/Narrow)''"
    by (simp add: sample_fields)
  have c: "specialized_radio (sample_session\<lparr>developed_internally := ''Internally Developed''\<rparr>)
             \<noteq> ''Yes (Specialized/Narrow)''"
    by (simp add: sample_fields)
  show ?thesis
    using provider_gate [OF a] provider_gate [OF b] provider_gate [OF c]
    by (simp add: sample_fields sample_radio substantial_mod_questions_def)
qed

lemma from_step3_result:
  assumes "choices_ok w ''prelim_'' preliminary_questions"
  shows "\<exists>p1 p2 p3 p4.
    spec_param_scale (radio_by_key w ''prelim_param_scale'') = Some p1 \<and>
    spec_yes_partly_no (radio_by_key w ''prelim_training_scope'') = Some p2 \<and>
    spec_yes_partly_no (radio_by_key w ''prelim_broad_ability'') = Some p3 \<and>
    spec_yes_partly_no (radio_by_key w ''prelim_generative_cap'') = Some p4 \<and>
    (let s = p1 + p2 + p3 + p4;
         g3 = g\<lparr>prelim_score := Some s,
                responses_step3 := Some
                  [(''param_scale'', radio_by_key w ''prelim_param_scale''),
                   (''training_scope'', radio_by_key w ''prelim_training_scope''),
                   (''broad_ability'', radio_by_key w ''prelim_broad_ability''),
                   (''generative_cap'', radio_by_key w ''prelim_generative_cap'')],
                asked := asked g @ [''prelim_param_scale'', ''prelim_training_scope'',
                   ''prelim_broad_ability'', ''prelim_generative_cap'']\<rparr>
     in step3 w g = (if s < 3 then Stopped Below_Threshold else Continue, g3) \<and>
        from_step3 w g = (if s < 3 then (Stopped Below_Threshold, g3) else from_step4 w g3))"
proof -
  from step3_result [OF assms, of g] obtain p1 p2 p3 p4 where
    p: "spec_param_scale (radio_by_key w ''prelim_param_scale'') = Some p1"
      "spec_yes_partly_no (radio_by_key w ''prelim_training_scope'') = Some p2"
      "spec_yes_partly_no (radio_by_key w ''prelim_broad_ability'') = Some p3"
      "spec_yes_partly_no (radio_by_key w ''prelim_generative_cap'') = Some p4"
    and s: "step3 w g =
      (if p1 + p2 + p3 + p4 < 3 then Stopped Below_Threshold else Continue,
       g\<lparr>prelim_score := Some (p1 + p2 + p3 + p4),
         responses_step3 := Some
           [(''param_scale'', radio_by_key w ''prelim_param_scale''),
            (''training_scope'', radio_by_key w ''prelim_training_scope''),
            (''broad_ability'', radio_by_key w ''prelim_broad_ability''),
            (''generative_cap'', radio_by_key w ''prelim_generative_cap'')],
         asked := asked g @ [''prelim_param_scale'', ''prelim_training_scope'',
            ''prelim_broad_ability'', ''prelim_generative_cap'']\<rparr>)"
    by blast
  define n where "n = p1 + p2 + p3 + p4"
  define g3 where "g3 = g\<lparr>prelim_score := Some (p1 + p2 + p3 + p4),
         responses_step3 := Some
           [(''param_scale'', radio_by_key w ''prelim_param_scale''),
            (''training_scope'', radio_by_key w ''prelim_training_scope''),
            (''broad_ability'', radio_by_key w ''prelim_broad_ability''),
            (''generative_cap'', radio_by_key w ''prelim_generative_cap'')],
         asked := asked g @ [''prelim_param_scale'', ''prelim_training_scope'',
            ''prelim_broad_ability'', ''prelim_generative_cap'']\<rparr>"
  have s': "step3 w g = (if n < 3 then Stopped Below_Threshold else Continue, g3)"
    unfolding n_def g3_def by (rule s)
  have f: "from_step3 w g = (if n < 3 then (Stopped Below_Threshold, g3) else from_step4 w g3)"
    by (simp add: from_step3_def and_then_def s')
  show ?thesis
    unfolding Let_def
    by (intro exI [of _ p1] exI [of _ p2] exI [of _ p3] exI [of _ p4] conjI
        p s f [unfolded n_def g3_def])
qed

subsection \<open>Preliminary scoring\<close>

text \<open>
  Claim C7. With the four preliminary answers taken from their option lists,
  \<^verbatim>\<open>prelim_score\<close> is the sum of the points the two maps of the specification give to
  the four answers. When the sum is below 3, step 3 stops at line 179 (Below-Threshold)
  and the rest of the script, whatever the later answers, is not run; when it is at least
  3, step 3 falls through and the script goes on with step 4.
\<close>

theorem preliminary_scoring:
  assumes "choices_ok w ''prelim_'' preliminary_questions"
  shows "\<exists>p1 p2 p3 p4.
    spec_param_scale (radio_by_key w ''prelim_param_scale'') = Some p1 \<and>
    spec_yes_partly_no (radio_by_key w ''prelim_training_scope'') = Some p2 \<and>
    spec_yes_partly_no (radio_by_key w ''prelim_broad_ability'') = Some p3 \<and>
    spec_yes_partly_no (radio_by_key w ''prelim_generative_cap'') = Some p4 \<and>
    (let s = p1 + p2 + p3 + p4;
         g3 = g\<lparr>prelim_score := Some s,
                responses_step3 := Some
                  [(''param_scale'', radio_by_key w ''prelim_param_scale''),
                   (''training_scope'', radio_by_key w ''prelim_training_scope''),
                   (''broad_ability'', radio_by_key w ''prelim_broad_ability''),
                   (''generative_cap'', radio_by_key w ''prelim_generative_cap'')],
                asked := asked g @ [''prelim_param_scale'', ''prelim_training_scope'',
                   ''prelim_broad_ability'', ''prelim_generative_cap'']\<rparr>
     in step3 w g = (if s < 3 then Stopped Below_Threshold else Continue, g3) \<and>
        from_step3 w g = (if s < 3 then (Stopped Below_Threshold, g3) else from_step4 w g3))"
  by (rule from_step3_result [OF assms])

lemma spec_points_values:
  "spec_param_scale ''> 10B'' = Some 2"
  "spec_param_scale ''< 1B'' = Some 0"
  "spec_yes_partly_no ''Yes'' = Some 2"
  "spec_yes_partly_no ''Partly'' = Some 1"
  "spec_yes_partly_no ''No'' = Some 0"
  by (simp_all add: spec_param_scale_def spec_yes_partly_no_def en_dash_def)

theorem preliminary_scoring_witness:
  "choices_ok sample_session ''prelim_'' preliminary_questions \<and>
   fst (step3 sample_session init_globals) = Continue \<and>
   prelim_score (snd (step3 sample_session init_globals)) = Some 5 \<and>
   choices_ok (sample_session\<lparr>radio_by_key :=
       (\<lambda>k. if k = ''prelim_param_scale'' then ''< 1B'' else ''No'')\<rparr>)
     ''prelim_'' preliminary_questions \<and>
   fst (from_step3 (sample_session\<lparr>radio_by_key :=
       (\<lambda>k. if k = ''prelim_param_scale'' then ''< 1B'' else ''No'')\<rparr>) init_globals)
     = Stopped Below_Threshold"
proof -
  let ?low = "sample_session\<lparr>radio_by_key :=
       (\<lambda>k. if k = ''prelim_param_scale'' then ''< 1B'' else ''No'')\<rparr>"
  have ok: "choices_ok ?low ''prelim_'' preliminary_questions"
    by (simp add: choices_ok_def preliminary_questions_def)
  show ?thesis
    using preliminary_scoring [OF sample_choices_ok(1), of init_globals]
      preliminary_scoring [OF ok, of init_globals] ok
    by (auto simp: sample_choices_ok sample_radio spec_points_values Let_def)
qed

lemma needs_remediation:
  "classify_compliance n \<in> set [''Provisionally Compliant (Some Gaps)'',
      ''Non-Compliant / High Risk (Insufficient Baseline) - Remediation Needed'']
   \<longleftrightarrow> n < 12"
  by (simp add: classify_compliance_def)

lemma step6_shape:
  assumes "prelim_score g = Some p" and "baseline_score g = Some b"
    and "systemic_classification g = Some sc"
  shows "step6 w g =
    (let g2 = g\<lparr>overall_score := Some (p + b),
                compliance_status := Some (classify_compliance (p + b))\<rparr>
     in if classify_compliance (p + b) \<in> set [''Provisionally Compliant (Some Gaps)'',
               ''Non-Compliant / High Risk (Insufficient Baseline) - Remediation Needed'']
        then (Continue, g2\<lparr>asked := asked g @ [''user_remediation''],
                           user_remediation := Some (remediation_text w)\<rparr>)
        else (Continue, g2))"
  unfolding step6_def Let_def using assms by (simp del: set_simps List.set_simps)

lemma step6_result:
  assumes "prelim_score g = Some p" and "baseline_score g = Some b"
    and "systemic_classification g = Some sc"
  shows "step6 w g =
    (let g2 = g\<lparr>overall_score := Some (p + b),
                compliance_status := Some (classify_compliance (p + b))\<rparr>
     in if p + b \<ge> 12 then (Continue, g2)
        else (Continue, g2\<lparr>asked := asked g @ [''user_remediation''],
                           user_remediation := Some (remediation_text w)\<rparr>))"
  unfolding step6_shape [OF assms] needs_remediation by (simp add: Let_def)

lemma classify_compliance_cases:
  "n \<ge> 12 \<Longrightarrow> classify_compliance n =
     ''Compliant or Mostly Compliant with Baseline GPAI Obligations''"
  "8 \<le> n \<Longrightarrow> n < 12 \<Longrightarrow> classify_compliance n = ''Provisionally Compliant (Some Gaps)''"
  "n < 8 \<Longrightarrow> classify_compliance n =
     ''Non-Compliant / High Risk (Insufficient Baseline) - Remediation Needed''"
  by (simp_all add: classify_compliance_def)

subsection \<open>Aggregation\<close>

text \<open>
  Claim C8. Step 6, entered with \<^verbatim>\<open>prelim_score\<close>, \<^verbatim>\<open>baseline_score\<close> and
  \<^verbatim>\<open>systemic_classification\<close> assigned, sets \<^verbatim>\<open>overall_score\<close> to the sum of the
  two scores and \<^verbatim>\<open>compliance_status\<close> to the compliant text when the sum is at least
  12, to the provisional text when it is from 8 to 11, and to the non-compliant text when
  it is below 8.
\<close>

theorem aggregation:
  assumes "prelim_score g = Some p" and "baseline_score g = Some b"
    and "systemic_classification g = Some sc"
  shows "fst (step6 w g) = Continue \<and>
    overall_score (snd (step6 w g)) = Some (p + b) \<and>
    (p + b \<ge> 12 \<longrightarrow> compliance_status (snd (step6 w g)) =
       Some ''Compliant or Mostly Compliant with Baseline GPAI Obligations'') \<and>
    (8 \<le> p + b \<and> p + b < 12 \<longrightarrow> compliance_status (snd (step6 w g)) =
       Some ''Provisionally Compliant (Some Gaps)'') \<and>
    (p + b < 8 \<longrightarrow> compliance_status (snd (step6 w g)) =
       Some ''Non-Compliant / High Risk (Insufficient Baseline) - Remediation Needed'')"
proof -
  let ?g2 = "g\<lparr>overall_score := Some (p + b),
                compliance_status := Some (classify_compliance (p + b))\<rparr>"
  have f: "fst (step6 w g) = Continue"
    and o: "overall_score (snd (step6 w g)) = Some (p + b)"
    and c: "compliance_status (snd (step6 w g)) = Some (classify_compliance (p + b))"
    by (simp_all add: step6_result [OF assms] Let_def)
  show ?thesis
    unfolding c using f o by (simp add: classify_compliance_cases)
qed

theorem aggregation_witness:
  "compliance_status (snd (step6 sample_session
      (init_globals\<lparr>prelim_score := Some 8, baseline_score := Some 8,
                     systemic_classification := Some ''No''\<rparr>))) =
     Some ''Compliant or Mostly Compliant with Baseline GPAI Obligations'' \<and>
   overall_score (snd (step6 sample_session
      (init_globals\<lparr>prelim_score := Some 8, baseline_score := Some 8,
                     systemic_classification := Some ''No''\<rparr>))) = Some 16 \<and>
   compliance_status (snd (step6 sample_session
      (init_globals\<lparr>prelim_score := Some 3, baseline_score := Some 0,
                     systemic_classification := Some ''No''\<rparr>))) =
     Some ''Non-Compliant / High Risk (Insufficient Baseline) - Remediation Needed'' \<and>
   overall_score (snd (step6 sample_session
      (init_globals\<lparr>prelim_score := Some 3, baseline_score := Some 0,
                     systemic_classification := Some ''No''\<rparr>))) = Some 3"
  using
    aggregation [of "init_globals\<lparr>prelim_score := Some 8, baseline_score := Some 8,
        systemic_classification := Some ''No''\<rparr>" 8 8 "''No''" sample_session]
    aggregation [of "init_globals\<lparr>prelim_score := Some 3, baseline_score := Some 0,
        systemic_classification := Some ''No''\<rparr>" 3 0 "''No''" sample_session]
  by simp

end
